theory Spec2Isabelle
  imports Main "HOL-Library.Word" "HOL-Library.Signed_Division" "HOL-Library.Multiset"
begin

unbundle bit_operations_syntax

section \<open>Data model of flows/hunts.go\<close>

text \<open>
  The hunt record of \<^verbatim>\<open>api_proto.Hunt\<close>, restricted to the fields that
  \<^verbatim>\<open>flows/hunts.go\<close> reads or writes. A Go pointer or slice that may be
  \<^verbatim>\<open>nil\<close> is an \<open>option\<close>: \<open>None\<close> is \<^verbatim>\<open>nil\<close>, and
  \<open>Some []\<close> is a slice that is not nil and has length zero. The timestamps are
  \<^verbatim>\<open>uint64\<close>.
\<close>

datatype Hunt_State = UNSET | PAUSED | RUNNING | STOPPED | ARCHIVED

type_synonym VQLCollectorArgs = string

record HuntStats =
  Stopped :: bool

record ArtifactCollectorArgs =
  Artifacts_req :: "string list option"
  CompiledCollectorArgs :: "VQLCollectorArgs list"

record Hunt =
  HuntId :: string
  HuntDescription :: string
  State :: Hunt_State
  CreateTime :: "64 word"
  StartTime :: "64 word"
  Expires :: "64 word"
  StartRequest :: "ArtifactCollectorArgs option"
  Artifacts :: "string list option"
  ArtifactSources :: "string list option"
  Stats :: "HuntStats option"

record ListHuntsRequest =
  Offset :: "64 word"
  Count :: "64 word"
  IncludeArchived :: bool

text \<open>
  Go errors as values. \<open>ErrorNew m\<close> is \<^verbatim>\<open>errors.New(m)\<close>; the two
  sentinels are the package-level values the code compares by identity;
  \<open>Collaborator m\<close> is an error returned by an external service; \<open>Panic m\<close>
  stands for a run-time panic (a method call on a nil dispatcher).
\<close>

datatype error =
    ErrorNew string
  | STOP_ITERATION
  | notModified
  | Collaborator string
  | Panic string

text \<open>
  Calls to the external collaborators that change the world outside the hunt record
  are logged in the order the code makes them.
\<close>

datatype effect =
    SetSubject string Hunt
  | NotifyByRegex string
  | Refresh
  | PushRowsToArtifact "64 word" Hunt string string string string

text \<open>
  The answers of the collaborators a call depends on. \<open>time_Now k\<close> is the
  \<^verbatim>\<open>UnixNano()\<close> reading (an \<^verbatim>\<open>int64\<close>) of the \<open>k\<close>-th call of
  \<^verbatim>\<open>time.Now()\<close> within one operation; \<open>rand_source\<close> is what
  \<^verbatim>\<open>crypto/rand\<close> delivers; \<open>HUNT_PREFIX\<close> is the constant
  \<^verbatim>\<open>constants.HUNT_PREFIX\<close>, \<open>hunt_path\<close> is
  \<^verbatim>\<open>paths.NewHuntPathManager(id).Path()\<close> and \<open>path_Join\<close> is
  \<^verbatim>\<open>path.Join\<close>: all three are declared outside this file and are
  parameters here.
\<close>

type_synonym repository = "string \<Rightarrow> string list option"
type_synonym manager = "error + repository"
type_synonym launcher = "ArtifactCollectorArgs \<Rightarrow> error + VQLCollectorArgs list"
type_synonym notifier = "string \<Rightarrow> error option"
type_synonym db = "string \<Rightarrow> Hunt \<Rightarrow> error option"
type_synonym journal = "Hunt \<Rightarrow> string \<Rightarrow> error option"

record services =
  GetDB :: "error + db"
  GetRepositoryManager :: "error + manager"
  GetLauncher :: "error + launcher"
  GetNotifier :: "notifier option"
  GetJournal :: "error + journal"
  Dispatcher_Refresh :: "error option"
  time_Now :: "nat \<Rightarrow> 64 word"
  rand_source :: "8 word list"
  HUNT_PREFIX :: string
  hunt_path :: "string \<Rightarrow> string"
  path_Join :: "string \<Rightarrow> string \<Rightarrow> string"

section \<open>Time stamps\<close>

text \<open>
  \<^verbatim>\<open>uint64(t.UnixNano() / 1000)\<close>: the division is Go's \<^verbatim>\<open>int64\<close>
  division, which truncates towards zero; the conversion to \<^verbatim>\<open>uint64\<close> keeps
  the bits.
\<close>

definition micros :: "64 word \<Rightarrow> 64 word" where
  "micros nanos = word_of_int (sint nanos sdiv 1000)"

text \<open>\<^verbatim>\<open>t.Unix()\<close>: whole seconds since the epoch.\<close>

definition unix_seconds :: "64 word \<Rightarrow> 64 word" where
  "unix_seconds nanos = word_of_int (sint nanos div 1000000000)"

text \<open>\<^verbatim>\<open>7*24*time.Hour\<close> in nanoseconds.\<close>

definition week_nanos :: "64 word" where
  "week_nanos = 7 * 24 * 3600 * 1000000000"

section \<open>GetNewHuntId\<close>

text \<open>
  \<^verbatim>\<open>rand.Read(buf)\<close> on a zeroed buffer of \<open>n\<close> bytes; its error is ignored,
  so the bytes the source did not deliver stay zero.
\<close>

definition rand_Read :: "8 word list \<Rightarrow> nat \<Rightarrow> 8 word list" where
  "rand_Read src n = take n (src @ replicate n 0)"

definition hextable :: string where
  "hextable = ''0123456789abcdef''"

text \<open>\<^verbatim>\<open>hex.Encode\<close>: two characters per source byte, high nibble first.\<close>

fun hex_Encode :: "8 word list \<Rightarrow> string" where
  "hex_Encode [] = []"
| "hex_Encode (b # bs) =
     hextable ! unat (drop_bit 4 b) # hextable ! unat (b AND 0x0f) # hex_Encode bs"

text \<open>
  \<^verbatim>\<open>result := make([]byte, 8); buf := make([]byte, 4)\<close>: four random bytes are
  encoded into the eight bytes of \<^verbatim>\<open>result\<close>.
\<close>

definition GetNewHuntId :: "services \<Rightarrow> string" where
  "GetNewHuntId sv = HUNT_PREFIX sv @ hex_Encode (rand_Read (rand_source sv) 4)"

section \<open>ModifyHunt\<close>

text \<open>The pattern \<^verbatim>\<open>^[Cc]\.\<close> that matches every client identifier.\<close>

definition all_clients :: string where
  "all_clients = ''^[Cc]'' @ [CHR 0x5C] @ ''.''"

text \<open>
  The closure \<^verbatim>\<open>ModifyHunt\<close> hands to the dispatcher. It mutates the hunt it is
  given in place, so the model returns the hunt as it is when the closure returns,
  with the error (or \<open>None\<close> for \<^verbatim>\<open>nil\<close>) and the journal calls made.
\<close>

definition ModifyHunt_mutator ::
  "services \<Rightarrow> Hunt \<Rightarrow> string \<Rightarrow> Hunt \<Rightarrow> error option \<times> Hunt \<times> effect list" where
  "ModifyHunt_mutator sv hunt_modification user hunt =
     (case Stats hunt of
        None \<Rightarrow> (Some (ErrorNew ''Invalid hunt''), hunt, [])
      | Some stats \<Rightarrow>
          if HuntDescription hunt_modification \<noteq> [] then
            (None, hunt\<lparr>HuntDescription := HuntDescription hunt_modification\<rparr>, [])
          else if State hunt_modification = ARCHIVED then
            (let hunt' = hunt\<lparr>State := ARCHIVED\<rparr> in
             case GetJournal sv of
               Inl err \<Rightarrow> (Some err, hunt', [])
             | Inr jnl \<Rightarrow>
                 (jnl hunt' user, hunt',
                  [PushRowsToArtifact (unix_seconds (time_Now sv 0)) hunt' user
                     ''System.Hunt.Archive'' ''server'' (HuntId hunt_modification)]))
          else if State hunt_modification = RUNNING then
            (if Stopped stats then
               (Some (ErrorNew ''Can not start a stopped hunt.''), hunt, [])
             else
               (None, hunt\<lparr>State := RUNNING, StartTime := micros (time_Now sv 0)\<rparr>, []))
          else (None, hunt\<lparr>State := STOPPED\<rparr>, []))"

text \<open>
  The dispatcher's mirror: the hunts in the order an iteration visits them, and the
  records the dispatcher has flushed to the store.
\<close>

record dispatcher =
  hunts :: "Hunt list"
  flushed :: "(string \<times> Hunt) list"

fun lookup_hunt :: "Hunt list \<Rightarrow> string \<Rightarrow> Hunt option" where
  "lookup_hunt [] hunt_id = None"
| "lookup_hunt (h # hs) hunt_id = (if HuntId h = hunt_id then Some h else lookup_hunt hs hunt_id)"

fun commit_hunt :: "Hunt list \<Rightarrow> string \<Rightarrow> Hunt \<Rightarrow> Hunt list" where
  "commit_hunt [] hunt_id h' = []"
| "commit_hunt (h # hs) hunt_id h' =
     (if HuntId h = hunt_id then h' # hs else h # commit_hunt hs hunt_id h')"

text \<open>
  Modelled from the spec: the method \<^verbatim>\<open>ModifyHunt\<close> of the hunt dispatcher, whose
  code is not in this file. It looks the hunt up in the mirror (an unknown
  identifier is a not-found error), runs the closure on a copy, leaves mirror and store
  untouched when the closure returns the not-modified sentinel or any other error, and on
  \<^verbatim>\<open>nil\<close> commits the changed hunt to the mirror and the store.
\<close>

definition Dispatcher_ModifyHunt ::
  "dispatcher \<Rightarrow> string \<Rightarrow> (Hunt \<Rightarrow> error option \<times> Hunt \<times> effect list) \<Rightarrow>
     error option \<times> dispatcher \<times> effect list" where
  "Dispatcher_ModifyHunt d hunt_id cb =
     (case lookup_hunt (hunts d) hunt_id of
        None \<Rightarrow> (Some (ErrorNew ''Not found''), d, [])
      | Some h \<Rightarrow>
          (case cb h of
             (Some err, h', effs) \<Rightarrow> (Some err, d, effs)
           | (None, h', effs) \<Rightarrow>
               (None,
                d\<lparr>hunts := commit_hunt (hunts d) hunt_id h',
                  flushed := flushed d @ [(hunt_id, h')]\<rparr>,
                effs)))"

text \<open>
  \<^verbatim>\<open>ModifyHunt\<close>: the dispatcher call with the closure above, then the
  notification of all clients. \<^verbatim>\<open>services.GetHuntDispatcher()\<close> is not checked
  for nil.
\<close>

definition ModifyHunt ::
  "services \<Rightarrow> dispatcher option \<Rightarrow> Hunt \<Rightarrow> string \<Rightarrow>
     error option \<times> dispatcher option \<times> effect list" where
  "ModifyHunt sv disp hunt_modification user =
     (case disp of
        None \<Rightarrow> (Some (Panic ''nil dispatcher''), None, [])
      | Some d \<Rightarrow>
          (case Dispatcher_ModifyHunt d (HuntId hunt_modification)
                  (ModifyHunt_mutator sv hunt_modification user) of
             (Some err, d', effs) \<Rightarrow> (Some err, Some d', effs)
           | (None, d', effs) \<Rightarrow>
               (case GetNotifier sv of
                  None \<Rightarrow> (Some (ErrorNew ''Notifier not ready''), Some d', effs)
                | Some ntf \<Rightarrow>
                    (ntf all_clients, Some d', effs @ [NotifyByRegex all_clients]))))"

section \<open>CreateHunt\<close>

text \<open>Ranging over a nil slice visits nothing.\<close>

fun slice :: "'a list option \<Rightarrow> 'a list" where
  "slice None = []"
| "slice (Some xs) = xs"

text \<open>
  \<^verbatim>\<open>GetArtifactSources\<close>: nil when there is no repository manager, otherwise the
  names of the sources of the artifact, an empty list when the repository or the
  artifact is missing.
\<close>

definition GetArtifactSources :: "services \<Rightarrow> string \<Rightarrow> string list option" where
  "GetArtifactSources sv artifact =
     (case GetRepositoryManager sv of
        Inl err \<Rightarrow> None
      | Inr mgr \<Rightarrow>
          (case mgr of
             Inl err \<Rightarrow> Some []
           | Inr repo \<Rightarrow>
               (case repo artifact of None \<Rightarrow> Some [] | Some sources \<Rightarrow> Some sources)))"

definition collect_sources :: "services \<Rightarrow> string list \<Rightarrow> string list" where
  "collect_sources sv artifacts =
     concat (map (\<lambda>artifact. map (path_Join sv artifact)
                    (slice (GetArtifactSources sv artifact))) artifacts)"

text \<open>
  The defaults \<^verbatim>\<open>CreateHunt\<close> fills in before it validates: a zero
  \<^verbatim>\<open>HuntStats\<close> when \<^verbatim>\<open>Stats\<close> is nil, a new identifier when
  \<^verbatim>\<open>HuntId\<close> is empty.
\<close>

definition init_hunt :: "services \<Rightarrow> Hunt \<Rightarrow> Hunt" where
  "init_hunt sv hunt0 =
     (let hunt1 = (if Stats hunt0 = None then hunt0\<lparr>Stats := Some \<lparr>Stopped = False\<rparr>\<rparr>
                   else hunt0)
      in if HuntId hunt1 = [] then hunt1\<lparr>HuntId := GetNewHuntId sv\<rparr> else hunt1)"

text \<open>
  \<^verbatim>\<open>CreateTime\<close> is the first clock reading; an \<^verbatim>\<open>Expires\<close> of zero
  becomes a week after the second.
\<close>

definition stamp_hunt :: "services \<Rightarrow> Hunt \<Rightarrow> Hunt" where
  "stamp_hunt sv hunt2 =
     (let hunt3 = hunt2\<lparr>CreateTime := micros (time_Now sv 0)\<rparr>
      in if Expires hunt3 = 0
         then hunt3\<lparr>Expires := micros (time_Now sv 1 + week_nanos)\<rparr>
         else hunt3)"

text \<open>
  The state a new hunt starts in: paused when unset; a hunt created running gets its
  start time and the clients are notified, when there is a notifier.
\<close>

definition start_hunt :: "services \<Rightarrow> Hunt \<Rightarrow> error option \<times> Hunt \<times> effect list" where
  "start_hunt sv hunt6 =
     (if State hunt6 = UNSET then (None, hunt6\<lparr>State := PAUSED\<rparr>, [])
      else if State hunt6 = RUNNING then
        (let hunt7 = hunt6\<lparr>StartTime := CreateTime hunt6\<rparr> in
         case GetNotifier sv of
           None \<Rightarrow> (None, hunt7, [])
         | Some ntf \<Rightarrow> (ntf all_clients, hunt7, [NotifyByRegex all_clients]))
      else (None, hunt6, []))"

text \<open>
  \<^verbatim>\<open>CreateHunt\<close> returns a pair \<^verbatim>\<open>(string, error)\<close>. The hunt is passed by
  pointer and changed in place, so the model also returns the caller's record as it is
  when the function returns, and the calls made to the collaborators.
\<close>

definition CreateHunt ::
  "services \<Rightarrow> Hunt \<Rightarrow> (string \<times> error option) \<times> Hunt \<times> effect list" where
  "CreateHunt sv hunt0 =
     (case GetDB sv of
        Inl err \<Rightarrow> (([], Some err), hunt0, [])
      | Inr db \<Rightarrow>
     let hunt2 = init_hunt sv hunt0 in
     (case StartRequest hunt2 of
        None \<Rightarrow> (([], Some (ErrorNew ''No artifacts to collect.'')), hunt2, [])
      | Some req \<Rightarrow>
     (case Artifacts_req req of
        None \<Rightarrow> (([], Some (ErrorNew ''No artifacts to collect.'')), hunt2, [])
      | Some artifacts \<Rightarrow>
     let hunt4 = stamp_hunt sv hunt2 in
     if Expires hunt4 < CreateTime hunt4 then
       (([], Some (ErrorNew ''Hunt expiry is in the past!'')), hunt4, [])
     else
     let hunt5 = hunt4\<lparr>Artifacts := Some artifacts,
                       ArtifactSources := Some (collect_sources sv artifacts)\<rparr>
     in
     (case GetRepositoryManager sv of
        Inl err \<Rightarrow> (([], Some err), hunt5, [])
      | Inr mgr \<Rightarrow>
     (case mgr of
        Inl err \<Rightarrow> (([], Some err), hunt5, [])
      | Inr repo \<Rightarrow>
     (case GetLauncher sv of
        Inl err \<Rightarrow> (([], Some err), hunt5, [])
      | Inr lnch \<Rightarrow>
     (case lnch req of
        Inl err \<Rightarrow> (([], Some err), hunt5, [])
      | Inr compiled \<Rightarrow>
     let hunt6 = hunt5\<lparr>StartRequest :=
                   Some (req\<lparr>CompiledCollectorArgs := CompiledCollectorArgs req @ compiled\<rparr>)\<rparr>
     in
     (case start_hunt sv hunt6 of
        (Some err, hunt8, effs) \<Rightarrow> (([], Some err), hunt8, effs)
      | (None, hunt8, effs) \<Rightarrow>
     (case db (hunt_path sv (HuntId hunt8)) hunt8 of
        Some err \<Rightarrow>
          (([], Some err), hunt8, effs @ [SetSubject (hunt_path sv (HuntId hunt8)) hunt8])
      | None \<Rightarrow>
          ((HuntId hunt8, Dispatcher_Refresh sv), hunt8,
           effs @ [SetSubject (hunt_path sv (HuntId hunt8)) hunt8, Refresh]))))))))))"

text \<open>A durable hunt record is written exactly by a call of \<^verbatim>\<open>db.SetSubject\<close>.\<close>

fun is_write :: "effect \<Rightarrow> bool" where
  "is_write (SetSubject p h) = True"
| "is_write e = False"

section \<open>ListHunts\<close>

text \<open>
  Modelled from the spec: the method \<^verbatim>\<open>ApplyFuncOnHunts\<close> of the hunt
  dispatcher, whose code is not in this file. It visits the hunts of the mirror in
  order and calls \<open>fn\<close> on each; the stop sentinel ends the iteration without an
  error for the caller; any other error ends it and is returned. The state \<open>s\<close> is
  what the closure has captured.
\<close>

fun ApplyFuncOnHunts ::
  "('s \<Rightarrow> Hunt \<Rightarrow> error option \<times> 's) \<Rightarrow> Hunt list \<Rightarrow> 's \<Rightarrow> error option \<times> 's" where
  "ApplyFuncOnHunts fn [] s = (None, s)"
| "ApplyFuncOnHunts fn (h # hs) s =
     (case fn s h of
        (Some err, s') \<Rightarrow> (if err = STOP_ITERATION then None else Some err, s')
      | (None, s') \<Rightarrow> ApplyFuncOnHunts fn hs s')"

text \<open>
  The closure of \<^verbatim>\<open>ListHunts\<close>; \<open>items\<close> is \<^verbatim>\<open>result.Items\<close>, and
  \<^verbatim>\<open>uint64(len(result.Items))\<close> is \<open>of_nat (length items)\<close>. The sum
  \<^verbatim>\<open>in.Offset+in.Count\<close> is a \<^verbatim>\<open>uint64\<close> and wraps.
\<close>

definition ListHunts_cb :: "ListHuntsRequest \<Rightarrow> Hunt list \<Rightarrow> Hunt \<Rightarrow> error option \<times> Hunt list" where
  "ListHunts_cb req items hunt =
     (if (of_nat (length items) :: 64 word) < Offset req then (None, items)
      else if (of_nat (length items) :: 64 word) \<ge> Offset req + Count req then
        (Some STOP_ITERATION, items)
      else if IncludeArchived req \<or> State hunt \<noteq> ARCHIVED then (None, items @ [hunt])
      else (None, items))"

text \<open>
  \<^verbatim>\<open>sort.Slice(items, lt)\<close>: the library promises a permutation in which no
  element is \<open>lt\<close> one before it, and nothing about the order of elements
  that compare equal. The model is an insertion sort, which is one such result.
\<close>

fun insert_by :: "('a \<Rightarrow> 'a \<Rightarrow> bool) \<Rightarrow> 'a \<Rightarrow> 'a list \<Rightarrow> 'a list" where
  "insert_by lt x [] = [x]"
| "insert_by lt x (y # ys) =
     (if lt x y then x # y # ys else y # insert_by lt x ys)"

fun sort_Slice :: "('a \<Rightarrow> 'a \<Rightarrow> bool) \<Rightarrow> 'a list \<Rightarrow> 'a list" where
  "sort_Slice lt [] = []"
| "sort_Slice lt (x # xs) = insert_by lt x (sort_Slice lt xs)"

definition newer :: "Hunt \<Rightarrow> Hunt \<Rightarrow> bool" where
  "newer a b = (CreateTime a > CreateTime b)"

definition ListHunts ::
  "dispatcher option \<Rightarrow> ListHuntsRequest \<Rightarrow> Hunt list option \<times> error option" where
  "ListHunts disp req =
     (case disp of
        None \<Rightarrow> (None, Some (ErrorNew ''Hunt dispatcher not initialized''))
      | Some d \<Rightarrow>
          (case ApplyFuncOnHunts (ListHunts_cb req) (hunts d) [] of
             (err, items) \<Rightarrow>
               (Some (sort_Slice newer items),
                if err = Some STOP_ITERATION then None else err)))"

section \<open>Concrete inputs\<close>

text \<open>
  An environment in which every collaborator answers without error, and hunts and
  requests to run the operations on.
\<close>

definition example_services :: services where
  "example_services =
     \<lparr>GetDB = Inr (\<lambda>p h. None),
      GetRepositoryManager = Inr (Inr (\<lambda>a. None)),
      GetLauncher = Inr (\<lambda>req. Inr [''compiled'']),
      GetNotifier = Some (\<lambda>r. None),
      GetJournal = Inr (\<lambda>h u. None),
      Dispatcher_Refresh = None,
      time_Now = (\<lambda>k. 1700000000000000000),
      rand_source = [0xde, 0xad, 0xbe, 0xef],
      HUNT_PREFIX = ''H.'',
      hunt_path = (\<lambda>hunt_id. ''/hunts/'' @ hunt_id),
      path_Join = (\<lambda>a b. a @ ''/'' @ b)\<rparr>"

definition example_request :: "string list option \<Rightarrow> ArtifactCollectorArgs" where
  "example_request artifacts = \<lparr>Artifacts_req = artifacts, CompiledCollectorArgs = []\<rparr>"

definition example_hunt :: "string \<Rightarrow> Hunt_State \<Rightarrow> 64 word \<Rightarrow> HuntStats option \<Rightarrow> Hunt" where
  "example_hunt hunt_id st created stats =
     \<lparr>HuntId = hunt_id, HuntDescription = [], State = st, CreateTime = created,
      StartTime = 0, Expires = 0,
      StartRequest = Some (example_request (Some [''Generic.Client.Info''])),
      Artifacts = None, ArtifactSources = None, Stats = stats\<rparr>"

definition example_modification :: "string \<Rightarrow> Hunt_State \<Rightarrow> string \<Rightarrow> Hunt" where
  "example_modification hunt_id st description =
     \<lparr>HuntId = hunt_id, HuntDescription = description, State = st, CreateTime = 0,
      StartTime = 0, Expires = 0, StartRequest = None,
      Artifacts = None, ArtifactSources = None, Stats = None\<rparr>"

definition example_new_hunt :: "ArtifactCollectorArgs option \<Rightarrow> Hunt" where
  "example_new_hunt req =
     \<lparr>HuntId = [], HuntDescription = ''a hunt'', State = UNSET, CreateTime = 0,
      StartTime = 0, Expires = 0, StartRequest = req,
      Artifacts = None, ArtifactSources = None, Stats = None\<rparr>"

definition example_mirror :: "Hunt list \<Rightarrow> dispatcher" where
  "example_mirror hs = \<lparr>hunts = hs, flushed = []\<rparr>"

section \<open>Properties of ModifyHunt\<close>

lemmas example_defs = example_services_def example_request_def example_hunt_def
  example_modification_def example_new_hunt_def example_mirror_def

lemma lookup_hunt_HuntId: "lookup_hunt hs hunt_id = Some h \<Longrightarrow> HuntId h = hunt_id"
  by (induction hs) (auto split: if_splits)

lemma lookup_hunt_commit:
  "lookup_hunt hs hunt_id = Some h \<Longrightarrow> HuntId h' = hunt_id \<Longrightarrow>
   lookup_hunt (commit_hunt hs hunt_id h') hunt_id = Some h'"
  by (induction hs) auto

lemma mutator_keeps_HuntId:
  "HuntId (fst (snd (ModifyHunt_mutator sv m user hunt))) = HuntId hunt"
  by (simp add: ModifyHunt_mutator_def Let_def split: option.splits sum.splits)

lemma mutator_invalid_hunt:
  "Stats hunt = None \<Longrightarrow>
   ModifyHunt_mutator sv m user hunt = (Some (ErrorNew ''Invalid hunt''), hunt, [])"
  by (simp add: ModifyHunt_mutator_def)

lemma mutator_description:
  "Stats hunt = Some st \<Longrightarrow> HuntDescription m \<noteq> [] \<Longrightarrow>
   ModifyHunt_mutator sv m user hunt = (None, hunt\<lparr>HuntDescription := HuntDescription m\<rparr>, [])"
  by (simp add: ModifyHunt_mutator_def)

lemma mutator_stopped_running:
  assumes "Stats hunt = Some st" "Stopped st" "State m = RUNNING" "HuntDescription m = []"
  shows "ModifyHunt_mutator sv m user hunt
         = (Some (ErrorNew ''Can not start a stopped hunt.''), hunt, [])"
  using assms by (simp add: ModifyHunt_mutator_def)

lemma mutator_start:
  assumes "Stats hunt = Some st" "\<not> Stopped st" "State m = RUNNING" "HuntDescription m = []"
  shows "ModifyHunt_mutator sv m user hunt
         = (None, hunt\<lparr>State := RUNNING, StartTime := micros (time_Now sv 0)\<rparr>, [])"
  using assms by (simp add: ModifyHunt_mutator_def)

text \<open>
  The closure never reads the state the hunt is in: a request to run a hunt whose
  \<^verbatim>\<open>Stats.Stopped\<close> is false is carried out whatever that state is.
\<close>

lemma mutator_start_from_any_state:
  assumes "Stats hunt = Some st" "\<not> Stopped st" "State m = RUNNING" "HuntDescription m = []"
  shows "fst (ModifyHunt_mutator sv m user hunt) = None \<and>
         State (fst (snd (ModifyHunt_mutator sv m user hunt))) = RUNNING"
  using assms by (simp add: mutator_start)

text \<open>A hunt that is stopped and not running is not set running by any request.\<close>

lemma mutator_stopped_never_running:
  assumes "Stats hunt = Some st" "Stopped st" "State hunt \<noteq> RUNNING"
  shows "State (fst (snd (ModifyHunt_mutator sv m user hunt))) \<noteq> RUNNING"
  using assms by (simp add: ModifyHunt_mutator_def Let_def split: sum.splits)

text \<open>
  Claim C1. The claim reads: ModifyHunt enforces the transition table, ARCHIVED is
  terminal, and a request taking an ARCHIVED hunt to RUNNING fails with a transition
  error. The code does not do so. On a mirror that holds one ARCHIVED hunt whose
  \<^verbatim>\<open>Stats.Stopped\<close> is false, the request with desired state RUNNING and an empty
  description returns no error: the hunt is committed in state RUNNING with a new start
  time, and the clients are notified.
\<close>

theorem ModifyHunt_archived_to_running_accepted:
  "ModifyHunt example_services
     (Some (example_mirror [example_hunt ''H.1'' ARCHIVED 5 (Some \<lparr>Stopped = False\<rparr>)]))
     (example_modification ''H.1'' RUNNING []) ''admin''
   = (None,
      Some \<lparr>hunts = [(example_hunt ''H.1'' ARCHIVED 5 (Some \<lparr>Stopped = False\<rparr>))
                       \<lparr>State := RUNNING, StartTime := 1700000000000000\<rparr>],
            flushed = [(''H.1'', (example_hunt ''H.1'' ARCHIVED 5 (Some \<lparr>Stopped = False\<rparr>))
                       \<lparr>State := RUNNING, StartTime := 1700000000000000\<rparr>)]\<rparr>,
      [NotifyByRegex all_clients])"
  by (simp add: ModifyHunt_def Dispatcher_ModifyHunt_def ModifyHunt_mutator_def example_defs
      micros_def signed_divide_int_def)

text \<open>
  Claim C6, as amended. For a hunt of the mirror with \<^verbatim>\<open>Stats\<close> present and a
  request with desired state RUNNING and an empty description: when
  \<^verbatim>\<open>Stats.Stopped\<close> is true the closure and ModifyHunt return the error
  "Can not start a stopped hunt." and hunt, mirror and store are unchanged, so the hunt
  does not become RUNNING; when \<^verbatim>\<open>Stats.Stopped\<close> is false and the hunt is
  PAUSED the closure succeeds, and the hunt is committed with state RUNNING and
  \<^verbatim>\<open>StartTime\<close> set to the clock reading in microseconds.
\<close>

theorem ModifyHunt_start_request:
  assumes "lookup_hunt (hunts d) (HuntId m) = Some hunt"
    and "Stats hunt = Some st" and "State m = RUNNING" and "HuntDescription m = []"
    and "Stopped st \<or> State hunt = PAUSED"
  shows "if Stopped st
         then ModifyHunt_mutator sv m user hunt
                = (Some (ErrorNew ''Can not start a stopped hunt.''), hunt, []) \<and>
              ModifyHunt sv (Some d) m user
                = (Some (ErrorNew ''Can not start a stopped hunt.''), Some d, [])
         else State hunt = PAUSED \<and>
              ModifyHunt_mutator sv m user hunt
                = (None, hunt\<lparr>State := RUNNING, StartTime := micros (time_Now sv 0)\<rparr>, []) \<and>
              fst (snd (ModifyHunt sv (Some d) m user))
                = Some (d\<lparr>hunts := commit_hunt (hunts d) (HuntId m)
                              (hunt\<lparr>State := RUNNING, StartTime := micros (time_Now sv 0)\<rparr>),
                          flushed := flushed d @
                              [(HuntId m,
                                hunt\<lparr>State := RUNNING, StartTime := micros (time_Now sv 0)\<rparr>)]\<rparr>) \<and>
              lookup_hunt (commit_hunt (hunts d) (HuntId m)
                  (hunt\<lparr>State := RUNNING, StartTime := micros (time_Now sv 0)\<rparr>)) (HuntId m)
                = Some (hunt\<lparr>State := RUNNING, StartTime := micros (time_Now sv 0)\<rparr>)"
proof (cases "Stopped st")
  case True
  then show ?thesis using assms
    by (simp add: ModifyHunt_def Dispatcher_ModifyHunt_def mutator_stopped_running)
next
  case False
  have "HuntId hunt = HuntId m" using assms(1) by (rule lookup_hunt_HuntId)
  then show ?thesis using False assms
    by (simp add: ModifyHunt_def Dispatcher_ModifyHunt_def mutator_start lookup_hunt_commit
        split: option.splits)
qed

theorem ModifyHunt_start_request_witness:
  "ModifyHunt example_services
     (Some (example_mirror [example_hunt ''H.1'' STOPPED 5 (Some \<lparr>Stopped = True\<rparr>)]))
     (example_modification ''H.1'' RUNNING []) ''admin''
   = (Some (ErrorNew ''Can not start a stopped hunt.''),
      Some (example_mirror [example_hunt ''H.1'' STOPPED 5 (Some \<lparr>Stopped = True\<rparr>)]), []) \<and>
   ModifyHunt_mutator example_services (example_modification ''H.1'' RUNNING []) ''admin''
     (example_hunt ''H.1'' PAUSED 5 (Some \<lparr>Stopped = False\<rparr>))
   = (None, (example_hunt ''H.1'' PAUSED 5 (Some \<lparr>Stopped = False\<rparr>))
              \<lparr>State := RUNNING, StartTime := 1700000000000000\<rparr>, [])"
  using
    ModifyHunt_start_request [of
      "example_mirror [example_hunt ''H.1'' STOPPED 5 (Some \<lparr>Stopped = True\<rparr>)]"
      "example_modification ''H.1'' RUNNING []"
      "example_hunt ''H.1'' STOPPED 5 (Some \<lparr>Stopped = True\<rparr>)"
      "\<lparr>Stopped = True\<rparr>" example_services "''admin''"]
    ModifyHunt_start_request [of
      "example_mirror [example_hunt ''H.1'' PAUSED 5 (Some \<lparr>Stopped = False\<rparr>)]"
      "example_modification ''H.1'' RUNNING []"
      "example_hunt ''H.1'' PAUSED 5 (Some \<lparr>Stopped = False\<rparr>)"
      "\<lparr>Stopped = False\<rparr>" example_services "''admin''"]
  by (simp add: example_defs micros_def signed_divide_int_def)

text \<open>
  The claim C6 as written fails: the hunt has \<^verbatim>\<open>Stats.Stopped\<close> true, the request
  has desired state RUNNING and a description, and ModifyHunt returns no error (it
  changes the description and leaves the state).
\<close>

theorem ModifyHunt_stopped_running_with_description:
  "ModifyHunt example_services
     (Some (example_mirror [example_hunt ''H.1'' PAUSED 5 (Some \<lparr>Stopped = True\<rparr>)]))
     (example_modification ''H.1'' RUNNING ''new text'') ''admin''
   = (None,
      Some \<lparr>hunts = [(example_hunt ''H.1'' PAUSED 5 (Some \<lparr>Stopped = True\<rparr>))
                       \<lparr>HuntDescription := ''new text''\<rparr>],
            flushed = [(''H.1'', (example_hunt ''H.1'' PAUSED 5 (Some \<lparr>Stopped = True\<rparr>))
                       \<lparr>HuntDescription := ''new text''\<rparr>)]\<rparr>,
      [NotifyByRegex all_clients])"
  by (simp add: ModifyHunt_def Dispatcher_ModifyHunt_def ModifyHunt_mutator_def example_defs)

text \<open>
  Claim C10, as amended. For a hunt whose \<^verbatim>\<open>Stats\<close> is present and a request with
  an empty description whose desired state is neither ARCHIVED nor RUNNING, the closure
  sets the state to STOPPED and returns no error, whatever state the hunt is in, and
  changes nothing else.
\<close>

theorem ModifyHunt_mutator_other_state_stops:
  assumes "Stats hunt = Some st" and "HuntDescription m = []"
    and "State m \<noteq> ARCHIVED" and "State m \<noteq> RUNNING"
  shows "ModifyHunt_mutator sv m user hunt = (None, hunt\<lparr>State := STOPPED\<rparr>, [])"
  using assms by (simp add: ModifyHunt_mutator_def)

theorem ModifyHunt_mutator_other_state_stops_witness:
  "ModifyHunt_mutator example_services (example_modification ''H.1'' PAUSED []) ''admin''
     (example_hunt ''H.1'' ARCHIVED 5 (Some \<lparr>Stopped = False\<rparr>))
   = (None, (example_hunt ''H.1'' ARCHIVED 5 (Some \<lparr>Stopped = False\<rparr>))\<lparr>State := STOPPED\<rparr>, [])"
  using ModifyHunt_mutator_other_state_stops [of
      "example_hunt ''H.1'' ARCHIVED 5 (Some \<lparr>Stopped = False\<rparr>)" "\<lparr>Stopped = False\<rparr>"
      "example_modification ''H.1'' PAUSED []" example_services "''admin''"]
  by (simp add: example_defs)

text \<open>
  The claim C10 as written fails: on a hunt whose \<^verbatim>\<open>Stats\<close> is nil the closure
  returns the error "Invalid hunt" and leaves the state RUNNING.
\<close>

theorem ModifyHunt_mutator_nil_stats_rejected:
  "ModifyHunt_mutator example_services (example_modification ''H.1'' PAUSED []) ''admin''
     (example_hunt ''H.1'' RUNNING 5 None)
   = (Some (ErrorNew ''Invalid hunt''), example_hunt ''H.1'' RUNNING 5 None, [])"
  by (simp add: ModifyHunt_mutator_def example_defs)

section \<open>Properties of ListHunts\<close>

text \<open>
  While \<^verbatim>\<open>result.Items\<close> is shorter than the offset the closure returns at once,
  and so it never grows: with a positive offset nothing is collected.
\<close>

lemma apply_below_offset:
  "(of_nat (length items) :: 64 word) < Offset req \<Longrightarrow>
   ApplyFuncOnHunts (ListHunts_cb req) hs items = (None, items)"
  by (induction hs) (simp_all add: ListHunts_cb_def)

lemma ListHunts_positive_offset:
  "Offset req \<noteq> 0 \<Longrightarrow> ListHunts (Some d) req = (Some [], None)"
  by (simp add: ListHunts_def apply_below_offset word_neq_0_conv)

lemma of_nat_reaches_count:
  fixes c :: "64 word"
  assumes "n \<le> unat c"
  shows "(c \<le> of_nat n) = (n = unat c)"
proof -
  have "unat (of_nat n :: 64 word) = n" using assms by (rule le_unat_uoi)
  then show ?thesis using assms by (auto simp add: word_le_nat_alt)
qed

text \<open>With offset zero the iteration collects the first \<open>Count\<close> hunts that pass the filter.\<close>

lemma apply_offset_zero:
  assumes "Offset req = 0" and "length items \<le> unat (Count req)"
  shows "ApplyFuncOnHunts (ListHunts_cb req) hs items
         = (None, items @ take (unat (Count req) - length items)
                     (filter (\<lambda>h. IncludeArchived req \<or> State h \<noteq> ARCHIVED) hs))"
  using assms
proof (induction hs arbitrary: items)
  case Nil
  then show ?case by simp
next
  case (Cons h hs)
  show ?case
  proof (cases "length items = unat (Count req)")
    case True
    then show ?thesis using Cons.prems
      by (simp add: ListHunts_cb_def of_nat_reaches_count)
  next
    case False
    then have lt: "length items < unat (Count req)" using Cons.prems by simp
    show ?thesis
    proof (cases "IncludeArchived req \<or> State h \<noteq> ARCHIVED")
      case True
      have "ApplyFuncOnHunts (ListHunts_cb req) (h # hs) items
            = ApplyFuncOnHunts (ListHunts_cb req) hs (items @ [h])"
        using True False Cons.prems by (simp add: ListHunts_cb_def of_nat_reaches_count)
      also have "\<dots> = (None, (items @ [h]) @ take (unat (Count req) - length (items @ [h]))
                     (filter (\<lambda>h. IncludeArchived req \<or> State h \<noteq> ARCHIVED) hs))"
        using lt Cons.prems by (intro Cons.IH) simp_all
      finally show ?thesis using True lt
        by (simp add: take_Cons' Suc_diff_Suc)
    next
      case no: False
      have "ApplyFuncOnHunts (ListHunts_cb req) (h # hs) items
            = ApplyFuncOnHunts (ListHunts_cb req) hs items"
        using no False Cons.prems by (simp add: ListHunts_cb_def of_nat_reaches_count)
      then show ?thesis using no Cons.IH[OF Cons.prems] by simp
    qed
  qed
qed

lemma mset_insert_by: "mset (insert_by lt x xs) = add_mset x (mset xs)"
  by (induction xs) auto

lemma mset_sort_Slice: "mset (sort_Slice lt xs) = mset xs"
  by (induction xs) (auto simp: mset_insert_by)

lemma set_insert_by: "set (insert_by lt x xs) = insert x (set xs)"
  by (induction xs) auto

lemma sorted_insert_by:
  "sorted_wrt (\<lambda>a b. CreateTime b \<le> CreateTime a) xs \<Longrightarrow>
   sorted_wrt (\<lambda>a b. CreateTime b \<le> CreateTime a) (insert_by newer x xs)"
  by (induction xs) (auto simp: set_insert_by newer_def)

lemma sorted_sort_Slice:
  "sorted_wrt (\<lambda>a b. CreateTime b \<le> CreateTime a) (sort_Slice newer xs)"
  by (induction xs) (auto simp: sorted_insert_by)

text \<open>
  Claim C2. The claim reads: ListHunts skips the first \<open>offset\<close> matching hunts and
  collects at most \<open>count\<close>. The code does not do so for a positive offset. On a
  mirror of two paused hunts, offset 1 and count 1 should return the second hunt; the
  closure compares the offset with the number of hunts collected so far, which stays 0,
  and the result is empty.
\<close>

theorem ListHunts_offset_one_returns_nothing:
  "ListHunts
     (Some (example_mirror [example_hunt ''H.1'' PAUSED 1 (Some \<lparr>Stopped = False\<rparr>),
                            example_hunt ''H.2'' PAUSED 2 (Some \<lparr>Stopped = False\<rparr>)]))
     \<lparr>Offset = 1, Count = 1, IncludeArchived = False\<rparr>
   = (Some [], None)"
  by (simp add: ListHunts_def ListHunts_cb_def example_defs)

text \<open>
  Claim C7, as amended. With offset 0, ListHunts returns the first \<open>count\<close> hunts of the
  mirror's iteration order that pass the archive filter (for count 2 the first two),
  and returns them sorted by \<^verbatim>\<open>CreateTime\<close>, newest first: the sort is applied to
  what was collected and cannot bring in a newer hunt that the iteration meets later.
\<close>

theorem ListHunts_first_page:
  "ListHunts (Some d) \<lparr>Offset = 0, Count = c, IncludeArchived = b\<rparr>
   = (Some (sort_Slice newer
        (take (unat c) (filter (\<lambda>h. b \<or> State h \<noteq> ARCHIVED) (hunts d)))), None) \<and>
   sorted_wrt (\<lambda>x y. CreateTime y \<le> CreateTime x)
     (sort_Slice newer (take (unat c) (filter (\<lambda>h. b \<or> State h \<noteq> ARCHIVED) (hunts d)))) \<and>
   mset (sort_Slice newer (take (unat c) (filter (\<lambda>h. b \<or> State h \<noteq> ARCHIVED) (hunts d))))
     = mset (take (unat c) (filter (\<lambda>h. b \<or> State h \<noteq> ARCHIVED) (hunts d)))"
  by (simp add: ListHunts_def apply_offset_zero sorted_sort_Slice mset_sort_Slice)

theorem ListHunts_first_page_witness:
  "ListHunts
     (Some (example_mirror [example_hunt ''H.4'' PAUSED 4 (Some \<lparr>Stopped = False\<rparr>),
                            example_hunt ''H.5'' PAUSED 5 (Some \<lparr>Stopped = False\<rparr>),
                            example_hunt ''H.1'' PAUSED 1 (Some \<lparr>Stopped = False\<rparr>),
                            example_hunt ''H.2'' PAUSED 2 (Some \<lparr>Stopped = False\<rparr>),
                            example_hunt ''H.3'' PAUSED 3 (Some \<lparr>Stopped = False\<rparr>)]))
     \<lparr>Offset = 0, Count = 2, IncludeArchived = False\<rparr>
   = (Some [example_hunt ''H.5'' PAUSED 5 (Some \<lparr>Stopped = False\<rparr>),
            example_hunt ''H.4'' PAUSED 4 (Some \<lparr>Stopped = False\<rparr>)], None)"
  using ListHunts_first_page [of
      "example_mirror [example_hunt ''H.4'' PAUSED 4 (Some \<lparr>Stopped = False\<rparr>),
                       example_hunt ''H.5'' PAUSED 5 (Some \<lparr>Stopped = False\<rparr>),
                       example_hunt ''H.1'' PAUSED 1 (Some \<lparr>Stopped = False\<rparr>),
                       example_hunt ''H.2'' PAUSED 2 (Some \<lparr>Stopped = False\<rparr>),
                       example_hunt ''H.3'' PAUSED 3 (Some \<lparr>Stopped = False\<rparr>)]" 2 False]
  by (simp add: example_defs newer_def)

text \<open>
  The claim C7 as written fails: the mirror holds five paused hunts created at
  1 < 2 < 3 < 4 < 5 and iterates them in that order; offset 0 and count 2 return the
  hunts created at 2 and 1, not those created at 5 and 4.
\<close>

theorem ListHunts_oldest_first_mirror:
  "ListHunts
     (Some (example_mirror [example_hunt ''H.1'' PAUSED 1 (Some \<lparr>Stopped = False\<rparr>),
                            example_hunt ''H.2'' PAUSED 2 (Some \<lparr>Stopped = False\<rparr>),
                            example_hunt ''H.3'' PAUSED 3 (Some \<lparr>Stopped = False\<rparr>),
                            example_hunt ''H.4'' PAUSED 4 (Some \<lparr>Stopped = False\<rparr>),
                            example_hunt ''H.5'' PAUSED 5 (Some \<lparr>Stopped = False\<rparr>)]))
     \<lparr>Offset = 0, Count = 2, IncludeArchived = False\<rparr>
   = (Some [example_hunt ''H.2'' PAUSED 2 (Some \<lparr>Stopped = False\<rparr>),
            example_hunt ''H.1'' PAUSED 1 (Some \<lparr>Stopped = False\<rparr>)], None) \<and>
   fst (ListHunts
     (Some (example_mirror [example_hunt ''H.1'' PAUSED 1 (Some \<lparr>Stopped = False\<rparr>),
                            example_hunt ''H.2'' PAUSED 2 (Some \<lparr>Stopped = False\<rparr>),
                            example_hunt ''H.3'' PAUSED 3 (Some \<lparr>Stopped = False\<rparr>),
                            example_hunt ''H.4'' PAUSED 4 (Some \<lparr>Stopped = False\<rparr>),
                            example_hunt ''H.5'' PAUSED 5 (Some \<lparr>Stopped = False\<rparr>)]))
     \<lparr>Offset = 0, Count = 2, IncludeArchived = False\<rparr>)
   \<noteq> Some [example_hunt ''H.5'' PAUSED 5 (Some \<lparr>Stopped = False\<rparr>),
            example_hunt ''H.4'' PAUSED 4 (Some \<lparr>Stopped = False\<rparr>)]"
  by (simp add: ListHunts_def ListHunts_cb_def example_defs newer_def word_le_nat_alt)

section \<open>Properties of GetNewHuntId\<close>

lemma length_hex_Encode: "length (hex_Encode bs) = 2 * length bs"
  by (induction bs) auto

lemma length_rand_Read: "length (rand_Read src n) = n"
  by (simp add: rand_Read_def)

lemma rand_Read_full: "length buf = n \<Longrightarrow> rand_Read buf n = buf"
  by (simp add: rand_Read_def)

lemma unat_high_nibble: "unat (drop_bit 4 (b :: 8 word)) = unat b div 16"
proof -
  have "unat (drop_bit 4 b) = drop_bit 4 (unat b)"
    by (simp only: unat_drop_bit_eq)
  then show ?thesis by (simp add: drop_bit_eq_div)
qed

lemma unat_low_nibble: "unat ((b :: 8 word) AND 0x0f) = unat b mod 16"
proof -
  have "b AND 0x0f = take_bit 4 b"
    by (simp add: take_bit_eq_mask mask_eq_exp_minus_1)
  then have "unat (b AND 0x0f) = take_bit 4 (unat b)"
    by (simp only: unsigned_take_bit_eq)
  then show ?thesis by (simp add: take_bit_eq_mod)
qed

lemma high_nibble_bound: "unat (drop_bit 4 (b :: 8 word)) < 16"
proof -
  have "unat b < 256" using unsigned_less[of b] by simp
  then show ?thesis unfolding unat_high_nibble by simp
qed

lemma low_nibble_bound: "unat ((b :: 8 word) AND 0x0f) < 16"
  unfolding unat_low_nibble by simp

lemma distinct_hextable: "distinct hextable"
  by (simp add: hextable_def)

lemma length_hextable: "length hextable = 16"
  by (simp add: hextable_def)

lemma hextable_inj:
  "i < 16 \<Longrightarrow> j < 16 \<Longrightarrow> hextable ! i = hextable ! j \<Longrightarrow> i = j"
  using distinct_hextable length_hextable by (simp add: nth_eq_iff_index_eq)

text \<open>The two characters of a byte determine the byte.\<close>

lemma byte_eq_of_nibbles:
  fixes a b :: "8 word"
  assumes "hextable ! unat (drop_bit 4 a) = hextable ! unat (drop_bit 4 b)"
    and "hextable ! unat (a AND 0x0f) = hextable ! unat (b AND 0x0f)"
  shows "a = b"
proof -
  have hi: "unat a div 16 = unat b div 16"
    using hextable_inj[OF high_nibble_bound high_nibble_bound assms(1)]
    by (simp only: unat_high_nibble)
  have lo: "unat a mod 16 = unat b mod 16"
    using hextable_inj[OF low_nibble_bound low_nibble_bound assms(2)]
    by (simp only: unat_low_nibble)
  have "unat a = unat b"
    using hi lo by (metis mult_div_mod_eq)
  then show ?thesis by (simp add: word_unat_eq_iff)
qed

lemma hex_Encode_inj: "hex_Encode xs = hex_Encode ys \<Longrightarrow> xs = ys"
proof (induction xs arbitrary: ys)
  case Nil
  then show ?case by (cases ys) simp_all
next
  case (Cons x xs)
  then show ?case by (cases ys) (auto dest: byte_eq_of_nibbles)
qed

lemma hex_digits: "set (hex_Encode bs) \<subseteq> set hextable"
proof (induction bs)
  case Nil
  then show ?case by simp
next
  case (Cons b bs)
  have "hextable ! unat (drop_bit 4 b) \<in> set hextable"
    using high_nibble_bound[of b] by (simp add: length_hextable)
  moreover have "hextable ! unat (b AND 0x0f) \<in> set hextable"
    using low_nibble_bound[of b] by (simp add: length_hextable)
  ultimately show ?case using Cons by simp
qed

lemma card_buffers: "card {buf :: 8 word list. length buf = 4} = 2 ^ 32"
  using card_lists_length_eq[of "UNIV :: 8 word set" 4] by (simp add: card_word)

text \<open>Whatever the random source delivers, the identifiers are those of the four-byte buffers.\<close>

lemma range_GetNewHuntId:
  "range (\<lambda>src. GetNewHuntId (sv\<lparr>rand_source := src\<rparr>))
   = (\<lambda>buf. HUNT_PREFIX sv @ hex_Encode buf) ` {buf. length buf = 4}"
proof
  show "range (\<lambda>src. GetNewHuntId (sv\<lparr>rand_source := src\<rparr>))
        \<subseteq> (\<lambda>buf. HUNT_PREFIX sv @ hex_Encode buf) ` {buf. length buf = 4}"
    by (auto simp: GetNewHuntId_def length_rand_Read)
next
  show "(\<lambda>buf. HUNT_PREFIX sv @ hex_Encode buf) ` {buf. length buf = 4}
        \<subseteq> range (\<lambda>src. GetNewHuntId (sv\<lparr>rand_source := src\<rparr>))"
  proof
    fix s assume "s \<in> (\<lambda>buf. HUNT_PREFIX sv @ hex_Encode buf) ` {buf. length buf = 4}"
    then obtain buf where b: "length buf = 4" "s = HUNT_PREFIX sv @ hex_Encode buf" by auto
    then have "s = GetNewHuntId (sv\<lparr>rand_source := buf\<rparr>)"
      by (simp add: GetNewHuntId_def rand_Read_full)
    then show "s \<in> range (\<lambda>src. GetNewHuntId (sv\<lparr>rand_source := src\<rparr>))" by blast
  qed
qed

text \<open>
  Claim C3, as amended. Every generated hunt identifier is the prefix
  \<^verbatim>\<open>constants.HUNT_PREFIX\<close> followed by the hex encoding of a 4-byte buffer filled
  from \<^verbatim>\<open>crypto/rand\<close>: eight characters, each a lower-case hex digit. Over all
  that the random source can deliver there are exactly \<open>2 ^ 32\<close> identifiers.
\<close>

theorem GetNewHuntId_space:
  "length (GetNewHuntId sv) = length (HUNT_PREFIX sv) + 8 \<and>
   take (length (HUNT_PREFIX sv)) (GetNewHuntId sv) = HUNT_PREFIX sv \<and>
   drop (length (HUNT_PREFIX sv)) (GetNewHuntId sv)
     = hex_Encode (rand_Read (rand_source sv) 4) \<and>
   length (rand_Read (rand_source sv) 4) = 4 \<and>
   set (drop (length (HUNT_PREFIX sv)) (GetNewHuntId sv)) \<subseteq> set hextable \<and>
   card (range (\<lambda>src. GetNewHuntId (sv\<lparr>rand_source := src\<rparr>))) = 2 ^ 32"
proof -
  have inj: "inj_on (\<lambda>buf. HUNT_PREFIX sv @ hex_Encode buf) {buf. length buf = 4}"
    by (rule inj_onI) (simp add: hex_Encode_inj)
  have "card (range (\<lambda>src. GetNewHuntId (sv\<lparr>rand_source := src\<rparr>))) = 2 ^ 32"
    unfolding range_GetNewHuntId by (simp only: card_image[OF inj] card_buffers)
  then show ?thesis
    using hex_digits[of "rand_Read (rand_source sv) 4"]
    by (simp add: GetNewHuntId_def length_hex_Encode length_rand_Read)
qed

theorem GetNewHuntId_space_witness:
  "length (GetNewHuntId example_services) = length (HUNT_PREFIX example_services) + 8 \<and>
   drop (length (HUNT_PREFIX example_services)) (GetNewHuntId example_services)
     = ''deadbeef'' \<and>
   card (range (\<lambda>src. GetNewHuntId (example_services\<lparr>rand_source := src\<rparr>))) = 2 ^ 32"
proof -
  have "hex_Encode (rand_Read (rand_source example_services) 4) = ''deadbeef''"
    by (simp add: example_services_def rand_Read_def hextable_def)
  then show ?thesis
    using GetNewHuntId_space [of example_services] by simp
qed

text \<open>
  The claim C3 as written fails: the identifier carries eight hex characters, which
  encode four bytes, not the sixteen characters of an 8-byte value; two 8-byte values
  from the random source that agree on their first four bytes give the same identifier.
\<close>

theorem GetNewHuntId_uses_four_bytes:
  "GetNewHuntId example_services = ''H.deadbeef'' \<and>
   length (drop (length (HUNT_PREFIX example_services)) (GetNewHuntId example_services)) = 8 \<and>
   GetNewHuntId (example_services\<lparr>rand_source := [0xde, 0xad, 0xbe, 0xef, 1, 2, 3, 4]\<rparr>)
     = GetNewHuntId (example_services\<lparr>rand_source := [0xde, 0xad, 0xbe, 0xef, 5, 6, 7, 8]\<rparr>)"
  by (simp add: GetNewHuntId_def example_defs rand_Read_def hextable_def)

section \<open>Properties of CreateHunt\<close>

lemma init_hunt_fields [simp]:
  "StartRequest (init_hunt sv h) = StartRequest h"
  "Expires (init_hunt sv h) = Expires h"
  "State (init_hunt sv h) = State h"
  by (simp_all add: init_hunt_def Let_def)

lemma stamp_hunt_State [simp]: "State (stamp_hunt sv h) = State h"
  by (simp add: stamp_hunt_def Let_def)

text \<open>The expiry test of the code, in terms of the caller's record and the clock.\<close>

lemma expired_iff:
  "Expires (stamp_hunt sv (init_hunt sv h)) < CreateTime (stamp_hunt sv (init_hunt sv h))
   \<longleftrightarrow> (if Expires h = 0 then micros (time_Now sv 1 + week_nanos) else Expires h)
         < micros (time_Now sv 0)"
  by (simp add: stamp_hunt_def Let_def)

lemma start_hunt_no_write: "\<not> list_ex is_write (snd (snd (start_hunt sv h)))"
  by (simp add: start_hunt_def Let_def split: option.splits)

lemma start_hunt_error:
  "fst (start_hunt sv h) \<noteq> None \<longleftrightarrow>
     State h = RUNNING \<and> (\<exists>ntf. GetNotifier sv = Some ntf \<and> ntf all_clients \<noteq> None)"
  by (auto simp add: start_hunt_def Let_def split: option.splits)

lemma CreateHunt_no_db:
  "GetDB sv = Inl e \<Longrightarrow> CreateHunt sv hunt = (([], Some e), hunt, [])"
  by (simp add: CreateHunt_def)

text \<open>A nil request and a nil artifact list are rejected after the defaults are filled in.\<close>

lemma CreateHunt_no_artifacts:
  assumes "GetDB sv = Inr db"
    and "StartRequest hunt = None \<or> (\<exists>req. StartRequest hunt = Some req \<and> Artifacts_req req = None)"
  shows "CreateHunt sv hunt
         = (([], Some (ErrorNew ''No artifacts to collect.'')), init_hunt sv hunt, [])"
  using assms by (auto simp add: CreateHunt_def Let_def)

lemma GetNewHuntId_not_empty: "GetNewHuntId sv \<noteq> []"
proof -
  have "length (GetNewHuntId sv) = length (HUNT_PREFIX sv) + 8"
    by (simp add: GetNewHuntId_def length_hex_Encode length_rand_Read)
  then show ?thesis by auto
qed

text \<open>
  Claim C4. The claim reads: CreateHunt rejects a request whose artifact list is empty,
  in particular a list that is not nil and has length zero, and persists nothing. The
  code tests the list against nil only. With a request whose artifact list is the empty,
  non-nil slice and every collaborator answering, CreateHunt returns the new identifier
  and no error, and writes the hunt to the datastore.
\<close>

theorem CreateHunt_accepts_empty_artifact_list:
  "fst (CreateHunt example_services (example_new_hunt (Some (example_request (Some [])))))
     = (''H.deadbeef'', None) \<and>
   snd (snd (CreateHunt example_services (example_new_hunt (Some (example_request (Some []))))))
     = [SetSubject ''/hunts/H.deadbeef''
          (fst (snd (CreateHunt example_services
             (example_new_hunt (Some (example_request (Some []))))))),
        Refresh] \<and>
   Artifacts (fst (snd (CreateHunt example_services
      (example_new_hunt (Some (example_request (Some []))))))) = Some []"
  by (simp add: CreateHunt_def init_hunt_def stamp_hunt_def start_hunt_def example_defs
      GetNewHuntId_def rand_Read_def hextable_def micros_def week_nanos_def
      signed_divide_int_def collect_sources_def Let_def)

text \<open>
  Claim C5. If a step of CreateHunt fails before the write to the datastore, CreateHunt
  returns an empty identifier and an error, and has made no call of
  \<^verbatim>\<open>db.SetSubject\<close>. The failing steps are: no datastore; a nil request or a nil
  artifact list; an expiry before the creation time; no repository manager or no global
  repository; no launcher or a failing compilation; a failing notifier when the hunt is
  created in state RUNNING.
\<close>

theorem CreateHunt_failure_writes_nothing:
  assumes "isl (GetDB sv)
     \<or> StartRequest hunt = None
     \<or> (\<exists>req. StartRequest hunt = Some req \<and> Artifacts_req req = None)
     \<or> (if Expires hunt = 0 then micros (time_Now sv 1 + week_nanos) else Expires hunt)
          < micros (time_Now sv 0)
     \<or> isl (GetRepositoryManager sv)
     \<or> (\<exists>mgr. GetRepositoryManager sv = Inr mgr \<and> isl mgr)
     \<or> isl (GetLauncher sv)
     \<or> (\<exists>lnch req. GetLauncher sv = Inr lnch \<and> StartRequest hunt = Some req \<and>
            isl (lnch req))
     \<or> (State hunt = RUNNING \<and>
          (\<exists>ntf. GetNotifier sv = Some ntf \<and> ntf all_clients \<noteq> None))"
  shows "fst (fst (CreateHunt sv hunt)) = [] \<and>
         snd (fst (CreateHunt sv hunt)) \<noteq> None \<and>
         \<not> list_ex is_write (snd (snd (CreateHunt sv hunt)))"
proof (cases "GetDB sv")
  case (Inl e)
  then show ?thesis by (simp add: CreateHunt_no_db)
next
  case db: (Inr db)
  show ?thesis
  proof (cases "StartRequest hunt")
    case None
    then show ?thesis using db by (simp add: CreateHunt_no_artifacts)
  next
    case req: (Some req)
    show ?thesis
    proof (cases "Artifacts_req req")
      case None
      then show ?thesis using db req by (simp add: CreateHunt_no_artifacts)
    next
      case arts: (Some artifacts)
      show ?thesis
      proof (cases "Expires (stamp_hunt sv (init_hunt sv hunt))
                      < CreateTime (stamp_hunt sv (init_hunt sv hunt))")
        case True
        then show ?thesis using db req arts by (simp add: CreateHunt_def Let_def)
      next
        case fresh: False
        show ?thesis
        proof (cases "GetRepositoryManager sv")
          case (Inl e)
          then show ?thesis using db req arts fresh by (simp add: CreateHunt_def Let_def)
        next
          case mgr: (Inr mgr)
          show ?thesis
          proof (cases mgr)
            case (Inl e)
            then show ?thesis using db req arts fresh mgr by (simp add: CreateHunt_def Let_def)
          next
            case repo: (Inr repo)
            show ?thesis
            proof (cases "GetLauncher sv")
              case (Inl e)
              then show ?thesis using db req arts fresh mgr repo
                by (simp add: CreateHunt_def Let_def)
            next
              case lnch: (Inr lnch)
              show ?thesis
              proof (cases "lnch req")
                case (Inl e)
                then show ?thesis using db req arts fresh mgr repo lnch
                  by (simp add: CreateHunt_def Let_def)
              next
                case compiled: (Inr compiled)
                define hunt6 where "hunt6 = (stamp_hunt sv (init_hunt sv hunt))
                  \<lparr>Artifacts := Some artifacts,
                   ArtifactSources := Some (collect_sources sv artifacts),
                   StartRequest := Some (req\<lparr>CompiledCollectorArgs :=
                      CompiledCollectorArgs req @ compiled\<rparr>)\<rparr>"
                have st: "State hunt6 = State hunt" by (simp add: hunt6_def)
                have "State hunt = RUNNING \<and>
                   (\<exists>ntf. GetNotifier sv = Some ntf \<and> ntf all_clients \<noteq> None)"
                  using assms db req arts fresh[unfolded expired_iff] mgr repo lnch compiled
                  by auto
                then have "fst (start_hunt sv hunt6) \<noteq> None"
                  using st start_hunt_error[of sv hunt6] by metis
                then obtain err h8 effs where s: "start_hunt sv hunt6 = (Some err, h8, effs)"
                  by (cases "start_hunt sv hunt6") auto
                have "\<not> list_ex is_write effs"
                  using start_hunt_no_write[of sv hunt6] s by simp
                moreover have "CreateHunt sv hunt = (([], Some err), h8, effs)"
                  using db req arts fresh mgr repo lnch compiled s
                  by (simp add: CreateHunt_def Let_def hunt6_def)
                ultimately show ?thesis by simp
              qed
            qed
          qed
        qed
      qed
    qed
  qed
qed

theorem CreateHunt_failure_writes_nothing_witness:
  "fst (fst (CreateHunt example_services
      ((example_new_hunt (Some (example_request (Some [''Generic.Client.Info'']))))
         \<lparr>Expires := 1\<rparr>))) = [] \<and>
   snd (fst (CreateHunt example_services
      ((example_new_hunt (Some (example_request (Some [''Generic.Client.Info'']))))
         \<lparr>Expires := 1\<rparr>))) \<noteq> None \<and>
   \<not> list_ex is_write (snd (snd (CreateHunt example_services
      ((example_new_hunt (Some (example_request (Some [''Generic.Client.Info'']))))
         \<lparr>Expires := 1\<rparr>)))) \<and>
   snd (fst (CreateHunt (example_services\<lparr>GetLauncher := Inr (\<lambda>req. Inl (Collaborator
        ''unknown artifact''))\<rparr>)
      (example_new_hunt (Some (example_request (Some [''Generic.Client.Info''])))))) \<noteq> None \<and>
   \<not> list_ex is_write (snd (snd (CreateHunt (example_services\<lparr>GetLauncher :=
        Inr (\<lambda>req. Inl (Collaborator ''unknown artifact''))\<rparr>)
      (example_new_hunt (Some (example_request (Some [''Generic.Client.Info''])))))))"
proof -
  have late: "(if Expires ((example_new_hunt (Some (example_request
                  (Some [''Generic.Client.Info'']))))\<lparr>Expires := 1\<rparr>) = 0
       then micros (time_Now example_services 1 + week_nanos)
       else Expires ((example_new_hunt (Some (example_request
                  (Some [''Generic.Client.Info'']))))\<lparr>Expires := 1\<rparr>))
      < micros (time_Now example_services 0)"
    by (simp add: example_defs micros_def signed_divide_int_def)
  have compile:
    "\<exists>lnch req. GetLauncher (example_services\<lparr>GetLauncher := Inr (\<lambda>req. Inl (Collaborator
         ''unknown artifact''))\<rparr>) = Inr lnch \<and>
       StartRequest (example_new_hunt (Some (example_request
         (Some [''Generic.Client.Info''])))) = Some req \<and> isl (lnch req)"
    by (simp add: example_defs)
  show ?thesis
    using CreateHunt_failure_writes_nothing [of example_services
        "(example_new_hunt (Some (example_request (Some [''Generic.Client.Info'']))))
           \<lparr>Expires := 1\<rparr>"]
      CreateHunt_failure_writes_nothing [of
        "example_services\<lparr>GetLauncher := Inr (\<lambda>req. Inl (Collaborator ''unknown artifact''))\<rparr>"
        "example_new_hunt (Some (example_request (Some [''Generic.Client.Info''])))"]
      late compile
    by blast
qed

text \<open>
  Claim C9, as amended. When the datastore is available, CreateHunt changes the
  caller's record before it validates: for an input with an empty \<^verbatim>\<open>HuntId\<close>, a
  nil \<^verbatim>\<open>Stats\<close> and a nil request or a nil artifact list, it returns the error
  "No artifacts to collect.", and on return the record has a zero \<^verbatim>\<open>Stats\<close> and a
  newly generated, non-empty \<^verbatim>\<open>HuntId\<close>; nothing else in it has changed.
\<close>

theorem CreateHunt_validation_failure_mutates_input:
  assumes "GetDB sv = Inr db" and "HuntId hunt = []" and "Stats hunt = None"
    and "StartRequest hunt = None \<or>
         (\<exists>req. StartRequest hunt = Some req \<and> Artifacts_req req = None)"
  shows "CreateHunt sv hunt
         = (([], Some (ErrorNew ''No artifacts to collect.'')),
            hunt\<lparr>Stats := Some \<lparr>Stopped = False\<rparr>, HuntId := GetNewHuntId sv\<rparr>, []) \<and>
         HuntId (fst (snd (CreateHunt sv hunt))) \<noteq> [] \<and>
         Stats (fst (snd (CreateHunt sv hunt))) = Some \<lparr>Stopped = False\<rparr>"
proof -
  have "init_hunt sv hunt = hunt\<lparr>Stats := Some \<lparr>Stopped = False\<rparr>, HuntId := GetNewHuntId sv\<rparr>"
    using assms(2,3) by (simp add: init_hunt_def Let_def)
  then show ?thesis
    using CreateHunt_no_artifacts[OF assms(1) assms(4)] GetNewHuntId_not_empty[of sv]
    by simp
qed

theorem CreateHunt_validation_failure_mutates_input_witness:
  "CreateHunt example_services (example_new_hunt (Some (example_request None)))
   = (([], Some (ErrorNew ''No artifacts to collect.'')),
      (example_new_hunt (Some (example_request None)))
        \<lparr>Stats := Some \<lparr>Stopped = False\<rparr>, HuntId := ''H.deadbeef''\<rparr>, [])"
proof -
  have "GetNewHuntId example_services = ''H.deadbeef''"
    by (simp add: GetNewHuntId_def example_services_def rand_Read_def hextable_def)
  moreover have "GetDB example_services = Inr (\<lambda>p h. None)"
    by (simp add: example_services_def)
  moreover have "HuntId (example_new_hunt (Some (example_request None))) = []"
    and "Stats (example_new_hunt (Some (example_request None))) = None"
    and "\<exists>req. StartRequest (example_new_hunt (Some (example_request None))) = Some req \<and>
           Artifacts_req req = None"
    by (simp_all add: example_defs)
  ultimately show ?thesis
    using CreateHunt_validation_failure_mutates_input [of example_services "\<lambda>p h. None"
        "example_new_hunt (Some (example_request None))"]
    by simp
qed

text \<open>
  The claim C9 as written fails: when \<^verbatim>\<open>datastore.GetDB\<close> fails, CreateHunt returns
  that error before it touches the record, which keeps its empty \<^verbatim>\<open>HuntId\<close> and
  nil \<^verbatim>\<open>Stats\<close>.
\<close>

theorem CreateHunt_no_datastore_leaves_input:
  "CreateHunt (example_services\<lparr>GetDB := Inl (Collaborator ''no datastore'')\<rparr>)
     (example_new_hunt None)
   = (([], Some (Collaborator ''no datastore'')), example_new_hunt None, []) \<and>
   HuntId (example_new_hunt None) = [] \<and>
   Stats (example_new_hunt None) = None \<and>
   StartRequest (example_new_hunt None) = None"
  by (simp add: CreateHunt_def example_defs)

end
